theory Spec2Isabelle
  imports Complex_Main
begin

section \<open>PriceWatch: the scraping pipeline and the scheduled batch run\<close>

text \<open>
  A shallow embedding of \<^verbatim>\<open>scraper.py\<close> (class \<^verbatim>\<open>PriceScraper\<close>) and of
  \<^verbatim>\<open>PriceScheduler.scrape_all_products\<close> in \<^verbatim>\<open>scheduler.py\<close>.

  Conventions of the model:
  \<^item> Python strings are \<open>string\<close> (lists of 8-bit characters); the model covers
    ASCII text, so \<^verbatim>\<open>\d\<close> is the ten digits \<open>0\<close> to \<open>9\<close>.
  \<^item> Python floats are exact rationals (\<open>rat\<close>): the value \<^verbatim>\<open>float(s)\<close> of a
    decimal numeral is the number it denotes; IEEE rounding, overflow to
    \<^verbatim>\<open>inf\<close> and underflow to zero are outside the model.
  \<^item> \<^verbatim>\<open>None\<close> and raised exceptions are values: \<open>option\<close> and sums; an
    exception is represented by its message.
  \<^item> The clock is a parameter: \<open>now\<close> is the reading that \<^verbatim>\<open>time.time()\<close>
    returns during the call.
\<close>

subsection \<open>String primitives of Python used by the scraper\<close>

definition is_digit :: "char \<Rightarrow> bool" where
  "is_digit c = (48 \<le> (of_char c :: nat) \<and> (of_char c :: nat) \<le> 57)"

definition digit_val :: "char \<Rightarrow> nat" where
  "digit_val c = of_char c - 48"

text \<open>\<^verbatim>\<open>str.isspace\<close> on ASCII: tab, line feed, vertical tab, form feed, carriage
  return, the four separators \<^verbatim>\<open>\x1c\<close> to \<^verbatim>\<open>\x1f\<close>, and the space.\<close>

definition is_space :: "char \<Rightarrow> bool" where
  "is_space c = ((of_char c :: nat) \<in> {9, 10, 11, 12, 13, 28, 29, 30, 31, 32})"

text \<open>\<^verbatim>\<open>s.strip()\<close>\<close>

definition py_strip :: "string \<Rightarrow> string" where
  "py_strip s = rev (dropWhile is_space (rev (dropWhile is_space s)))"

text \<open>\<^verbatim>\<open>s.rindex(c)\<close> for a one-character \<open>c\<close>: the index of the last occurrence;
  \<open>None\<close> stands for the \<^verbatim>\<open>ValueError\<close> raised when there is none.\<close>

definition rindex :: "string \<Rightarrow> char \<Rightarrow> nat option" where
  "rindex s c =
     (if c \<in> set s then Some (length s - Suc (length (takeWhile (\<lambda>x. x \<noteq> c) (rev s))))
      else None)"

text \<open>\<^verbatim>\<open>s.replace(c, '')\<close> and \<^verbatim>\<open>s.replace(c, d)\<close> for one-character \<open>c\<close>, \<open>d\<close>.\<close>

definition remove_char :: "char \<Rightarrow> string \<Rightarrow> string" where
  "remove_char c s = filter (\<lambda>x. x \<noteq> c) s"

definition replace_char :: "char \<Rightarrow> char \<Rightarrow> string \<Rightarrow> string" where
  "replace_char c d s = map (\<lambda>x. if x = c then d else x) s"

text \<open>\<^verbatim>\<open>s.split(c)\<close>: the pieces between the occurrences of \<open>c\<close>; one more piece
  than there are occurrences, and never the empty list.\<close>

fun split_char :: "char \<Rightarrow> string \<Rightarrow> string list" where
  "split_char c [] = [[]]"
| "split_char c (x # xs) =
     (if x = c then [] # split_char c xs
      else (case split_char c xs of
              [] \<Rightarrow> [[x]]
            | p # ps \<Rightarrow> (x # p) # ps))"

subsection \<open>The numeric price parser: \<^verbatim>\<open>PriceScraper._clean_price_text\<close>\<close>

text \<open>\<^verbatim>\<open>re.sub(r'[^\d.,]', '', text)\<close>: every character other than a digit, a
  period or a comma is deleted.\<close>

definition keep_price_chars :: "string \<Rightarrow> string" where
  "keep_price_chars s = filter (\<lambda>c. is_digit c \<or> c = CHR ''.'' \<or> c = CHR '','') s"

text \<open>
  Lines 89 to 104: the separators are normalised. The tests \<^verbatim>\<open>',' in cleaned\<close> and
  \<^verbatim>\<open>'.' in cleaned\<close> are the two \<open>set\<close> memberships; \<open>rindex\<close> is only called
  under them, so its \<open>None\<close> is never reached there (the last \<open>case\<close> line).
\<close>

definition normalize_separators :: "string \<Rightarrow> string" where
  "normalize_separators cleaned =
     (if CHR '','' \<in> set cleaned \<and> CHR ''.'' \<in> set cleaned then
        (case (rindex cleaned (CHR '',''), rindex cleaned (CHR ''.'')) of
           (Some i, Some j) \<Rightarrow>
             if i < j then remove_char (CHR '','') cleaned
             else replace_char (CHR '','') (CHR ''.'') (remove_char (CHR ''.'') cleaned)
         | _ \<Rightarrow> cleaned)
      else if CHR '','' \<in> set cleaned then
        (let parts = split_char (CHR '','') cleaned in
         if length parts = 2 \<and> length (parts ! 1) \<le> 2
         then replace_char (CHR '','') (CHR ''.'') cleaned
         else remove_char (CHR '','') cleaned)
      else cleaned)"

text \<open>The value of a string of digits, most significant first.\<close>

definition digits_val :: "string \<Rightarrow> nat" where
  "digits_val s = foldl (\<lambda>a c. 10 * a + digit_val c) 0 s"

text \<open>
  \<^verbatim>\<open>float(s)\<close> on the strings the parser passes to it, which consist of digits
  and periods only (lemma \<open>normalize_separators_alphabet\<close> below): Python accepts
  \<open>digits\<close>, \<open>digits.\<close>, \<open>digits.digits\<close> and \<open>.digits\<close>, and raises
  \<^verbatim>\<open>ValueError\<close> (here \<open>None\<close>) on the empty string, on a lone period and on two
  or more periods. Signs, exponents, \<^verbatim>\<open>inf\<close> and \<^verbatim>\<open>nan\<close> cannot occur in that
  alphabet and are rejected by this model.
\<close>

definition py_float :: "string \<Rightarrow> rat option" where
  "py_float s =
     (case split_char (CHR ''.'') s of
        [a] \<Rightarrow> if a \<noteq> [] \<and> list_all is_digit a then Some (of_nat (digits_val a)) else None
      | [a, b] \<Rightarrow>
          if (a \<noteq> [] \<or> b \<noteq> []) \<and> list_all is_digit a \<and> list_all is_digit b
          then Some (of_nat (digits_val (a @ b)) / 10 ^ length b)
          else None
      | _ \<Rightarrow> None)"

definition clean_price_text :: "string \<Rightarrow> rat option" where
  "clean_price_text price_text =
     (if price_text = [] then None
      else py_float (normalize_separators (keep_price_chars (py_strip price_text))))"

subsection \<open>Selector resolution: \<^verbatim>\<open>_get_domain\<close> and \<^verbatim>\<open>_get_price_selectors\<close>\<close>

text \<open>\<^verbatim>\<open>s.lower()\<close> on ASCII: the letters \<open>A\<close> to \<open>Z\<close> (codes 65 to 90) are
  moved up by 32, which sets bit 5 of the code.\<close>

definition py_lower :: "string \<Rightarrow> string" where
  "py_lower s =
     map (\<lambda>c. if 65 \<le> (of_char c :: nat) \<and> (of_char c :: nat) \<le> 90
              then (case c of Char b0 b1 b2 b3 b4 b5 b6 b7 \<Rightarrow> Char b0 b1 b2 b3 b4 True b6 b7)
              else c) s"

text \<open>\<^verbatim>\<open>sub in s\<close> for strings.\<close>

fun contains :: "string \<Rightarrow> string \<Rightarrow> bool" where
  "contains sub [] = (sub = [])"
| "contains sub (x # xs) = (take (length sub) (x # xs) = sub \<or> contains sub xs)"

text \<open>
  \<^verbatim>\<open>s.replace(old, new)\<close> for a non-empty \<open>old\<close>: the occurrences of \<open>old\<close> are
  found from left to right without overlap and each is replaced. (The scraper only
  calls it with \<^verbatim>\<open>'www.'\<close>; for an empty \<open>old\<close> this model returns \<open>s\<close>.)
\<close>

function py_replace :: "string \<Rightarrow> string \<Rightarrow> string \<Rightarrow> string" where
  "py_replace old new [] = []"
| "py_replace old new (x # xs) =
     (if old \<noteq> [] \<and> take (length old) (x # xs) = old
      then new @ py_replace old new (drop (length old) (x # xs))
      else x # py_replace old new xs)"
  by pat_completeness auto
termination
  by (relation "measure (\<lambda>(old, new, s). length s)") (auto split: if_splits)

text \<open>
  \<^verbatim>\<open>urlparse(url).netloc\<close>, after \<^verbatim>\<open>urllib.parse.urlsplit\<close> of the standard
  library, on ASCII URLs: leading control characters and spaces are stripped, tab,
  carriage return and line feed are deleted, a scheme (a letter followed by
  \<open>scheme_chars\<close>, up to the first colon) is split off, and when the rest starts
  with \<^verbatim>\<open>//\<close> the netloc runs up to the first of \<^verbatim>\<open>/ ? #\<close>. \<open>None\<close> is the
  \<^verbatim>\<open>ValueError\<close> of an invalid bracketed (IPv6) host; the validation of the
  address between the brackets (\<^verbatim>\<open>_check_bracketed_netloc\<close>, module
  \<^verbatim>\<open>ipaddress\<close>) is the parameter \<open>bracket_ok\<close>.
\<close>

definition scheme_chars :: "string" where
  "scheme_chars =
     ''abcdefghijklmnopqrstuvwxyzABCDEFGHIJKLMNOPQRSTUVWXYZ0123456789+-.''"

definition is_ascii_alpha :: "char \<Rightarrow> bool" where
  "is_ascii_alpha c =
     ((65 \<le> (of_char c :: nat) \<and> (of_char c :: nat) \<le> 90) \<or>
      (97 \<le> (of_char c :: nat) \<and> (of_char c :: nat) \<le> 122))"

definition split_scheme :: "string \<Rightarrow> string" where
  "split_scheme url =
     (let i = length (takeWhile (\<lambda>c. c \<noteq> CHR '':'') url) in
      if CHR '':'' \<in> set url \<and> 0 < i \<and> is_ascii_alpha (hd url) \<and>
         list_all (\<lambda>c. c \<in> set scheme_chars) (take i url)
      then drop (Suc i) url else url)"

definition urlsplit_netloc :: "(string \<Rightarrow> bool) \<Rightarrow> string \<Rightarrow> string option" where
  "urlsplit_netloc bracket_ok url =
     (let url1 = dropWhile (\<lambda>c. (of_char c :: nat) \<le> 32) url;
          url2 = filter (\<lambda>c. (of_char c :: nat) \<notin> {9, 10, 13}) url1;
          url3 = split_scheme url2
      in if take 2 url3 = ''//'' then
           (let netloc = takeWhile (\<lambda>c. c \<notin> set ''/?#'') (drop 2 url3) in
            if (CHR ''['' \<in> set netloc) \<noteq> (CHR '']'' \<in> set netloc) then None
            else if CHR ''['' \<in> set netloc \<and> \<not> bracket_ok netloc then None
            else Some netloc)
         else Some [])"

text \<open>\<^verbatim>\<open>_get_domain\<close>: the bare \<^verbatim>\<open>except\<close> turns a raising parse into \<^verbatim>\<open>''\<close>.\<close>

definition get_domain :: "(string \<Rightarrow> bool) \<Rightarrow> string \<Rightarrow> string" where
  "get_domain bracket_ok url =
     (case urlsplit_netloc bracket_ok url of
        None \<Rightarrow> []
      | Some netloc \<Rightarrow> py_replace ''www.'' [] (py_lower netloc))"

text \<open>\<^verbatim>\<open>self.price_selectors\<close>: a dict, iterated in insertion order.\<close>

definition price_selectors :: "(string \<times> string list) list" where
  \<open>price_selectors =
     [(''amazon.com'',
        [''.a-price-whole'', ''.a-offscreen'', ''#priceblock_dealprice'',
         ''#priceblock_ourprice'', ''.a-price .a-offscreen'']),
      (''ebay.com'',
        [''.u-flL.condText'', ''.us-pvr-price'', ''#mm-saleDscPrc'', ''.bold'']),
      (''etsy.com'',
        [''.currency-value'', ''.shop2-review-review-header-currency-value'']),
      (''walmart.com'',
        [''[data-testid="price-current"]'', ''.price-current'', ''[itemprop="price"]'']),
      (''target.com'',
        [''[data-test="product-price"]'', ''.h-display-xs'']),
      (''bestbuy.com'',
        [''.pricing-price__range'', ''.sr-only''])]\<close>

definition generic_selectors :: "string list" where
  \<open>generic_selectors =
     [''.price'', ''[class*="price"]'', ''[id*="price"]'', ''[data-testid*="price"]'',
      ''.amount'', ''.cost'', ''.value'']\<close>

text \<open>The \<^verbatim>\<open>for site, selectors in ... .items()\<close> loop with its early return.\<close>

fun site_lookup :: "(string \<times> string list) list \<Rightarrow> string \<Rightarrow> string list option" where
  "site_lookup [] domain = None"
| "site_lookup ((site, selectors) # rest) domain =
     (if contains site domain then Some selectors else site_lookup rest domain)"

text \<open>\<^verbatim>\<open>if custom_selector:\<close> holds for a string that is neither \<^verbatim>\<open>None\<close> nor empty.\<close>

definition get_price_selectors ::
    "(string \<Rightarrow> bool) \<Rightarrow> string \<Rightarrow> string option \<Rightarrow> string list" where
  "get_price_selectors bracket_ok url custom_selector =
     (if custom_selector \<noteq> None \<and> custom_selector \<noteq> Some []
      then [the custom_selector]
      else (case site_lookup price_selectors (get_domain bracket_ok url) of
              Some selectors \<Rightarrow> selectors
            | None \<Rightarrow> generic_selectors))"

subsection \<open>The page price extractor: \<^verbatim>\<open>scrape_price\<close>\<close>

text \<open>
  One visit of a page is described by what the browser library (Playwright), the HTML
  parser and the regular-expression engine do during it; the scraper's own control
  flow is modelled on top:
  \<^item> \<open>start_fails\<close>, \<open>launch_fails\<close>, \<open>new_context_fails\<close>, \<open>new_page_fails\<close>,
    \<open>goto_fails\<close>, \<open>close_fails\<close>: the message of the exception an awaited call
    raises, \<open>None\<close> when it returns;
  \<^item> \<open>query sel\<close>: the result of \<^verbatim>\<open>page.query_selector_all(sel)\<close>, \<open>None\<close> when it
    raises, otherwise for each element the result of \<^verbatim>\<open>inner_text()\<close> (\<open>None\<close>
    when that raises);
  \<^item> \<open>fallback_matches\<close>: for each of the four price patterns of
    \<^verbatim>\<open>_fallback_price_extraction\<close>, in declaration order, the captured groups
    \<^verbatim>\<open>re.findall\<close> returns on the page text; \<open>None\<close> when reading or parsing the
    page raises.
\<close>

record visit =
  start_fails :: "string option"
  launch_fails :: "string option"
  new_context_fails :: "string option"
  new_page_fails :: "string option"
  goto_fails :: "string option"
  query :: "string \<Rightarrow> string option list option"
  fallback_matches :: "string list list option"
  close_fails :: "string option"

text \<open>The result dictionary of \<^verbatim>\<open>scrape_price\<close> (the spec's ScrapeOutcome).\<close>

record outcome =
  url :: string
  price :: "rat option"
  success :: bool
  error :: "string option"
  timestamp :: rat

text \<open>What the call holds of the browser: the Playwright driver, the browser it
  launched and the browsing context created in it; \<open>events\<close> records, in order, the
  calls that create or release them.\<close>

datatype pw_event = Pw_start | Launch | New_context | Browser_close | Pw_exit

record resources =
  pw_running :: bool
  browser_open :: bool
  context_open :: bool
  events :: "pw_event list"

text \<open>\<^verbatim>\<open>await browser.close()\<close> closes the browser and the contexts in it.\<close>

definition browser_close :: "resources \<Rightarrow> resources" where
  "browser_close r =
     r\<lparr>browser_open := False, context_open := False, events := events r @ [Browser_close]\<rparr>"

text \<open>Leaving \<^verbatim>\<open>async with async_playwright()\<close> stops the driver process, and with it
  every browser and context it still holds (Playwright's documented behaviour).\<close>

definition playwright_exit :: "resources \<Rightarrow> resources" where
  "playwright_exit r =
     r\<lparr>pw_running := False, browser_open := False, context_open := False,
       events := events r @ [Pw_exit]\<rparr>"

text \<open>The inner \<^verbatim>\<open>for element in elements\<close> loop (lines 156 to 163), inside the
  \<^verbatim>\<open>try\<close> of its selector: a raising \<^verbatim>\<open>inner_text\<close> abandons the selector, and
  \<^verbatim>\<open>if extracted_price and extracted_price > 0\<close> accepts a value that is neither
  \<^verbatim>\<open>None\<close> nor zero and is positive.\<close>

fun first_price :: "string option list \<Rightarrow> rat option" where
  "first_price [] = None"
| "first_price (None # elements) = None"
| "first_price (Some text # elements) =
     (case clean_price_text text of
        None \<Rightarrow> first_price elements
      | Some extracted_price \<Rightarrow>
          if extracted_price \<noteq> 0 \<and> extracted_price > 0 then Some extracted_price
          else first_price elements)"

text \<open>The outer \<^verbatim>\<open>for selector in selectors\<close> loop (lines 152 to 170).\<close>

fun try_selectors :: "(string \<Rightarrow> string option list option) \<Rightarrow> string list \<Rightarrow> rat option" where
  "try_selectors q [] = None"
| "try_selectors q (selector # selectors) =
     (case q selector of
        None \<Rightarrow> try_selectors q selectors
      | Some elements \<Rightarrow>
          (case first_price elements of
             Some p \<Rightarrow> Some p
           | None \<Rightarrow> try_selectors q selectors))"

text \<open>\<^verbatim>\<open>_fallback_price_extraction\<close>, lines 215 to 220: the first match, pattern by
  pattern, whose parse is truthy and lies in \<open>[0.01, 999999]\<close>.\<close>

fun first_in_range :: "string list \<Rightarrow> rat option" where
  "first_in_range [] = None"
| "first_in_range (m # matches) =
     (case clean_price_text m of
        None \<Rightarrow> first_in_range matches
      | Some p \<Rightarrow>
          if p \<noteq> 0 \<and> 1 / 100 \<le> p \<and> p \<le> 999999 then Some p
          else first_in_range matches)"

fun scan_patterns :: "string list list \<Rightarrow> rat option" where
  "scan_patterns [] = None"
| "scan_patterns (matches # rest) =
     (case first_in_range matches of
        Some p \<Rightarrow> Some p
      | None \<Rightarrow> scan_patterns rest)"

definition fallback_price_extraction :: "visit \<Rightarrow> rat option" where
  "fallback_price_extraction v =
     (case fallback_matches v of
        None \<Rightarrow> None
      | Some mss \<Rightarrow> scan_patterns mss)"

text \<open>Python's truth value of an optional float: \<^verbatim>\<open>if price:\<close>.\<close>

definition truthy :: "rat option \<Rightarrow> bool" where
  "truthy p = (case p of None \<Rightarrow> False | Some x \<Rightarrow> x \<noteq> 0)"

text \<open>
  The body of the \<^verbatim>\<open>async with\<close> block (lines 135 to 184). It returns the exception
  that left it (if any), the result dictionary as mutated so far, and the resources.
  \<^verbatim>\<open>_wait_for_page_load\<close> catches what it raises and needs no branch.
\<close>

definition browser_session ::
    "(string \<Rightarrow> bool) \<Rightarrow> visit \<Rightarrow> string option \<Rightarrow> outcome \<Rightarrow> resources
       \<Rightarrow> string option \<times> outcome \<times> resources" where
  "browser_session bracket_ok v css_selector result r =
     (case launch_fails v of
        Some e \<Rightarrow> (Some e, result, r)
      | None \<Rightarrow>
         (let r1 = r\<lparr>browser_open := True, events := events r @ [Launch]\<rparr> in
          (case new_context_fails v of
             Some e \<Rightarrow> (Some e, result, r1)
           | None \<Rightarrow>
              (let r2 = r1\<lparr>context_open := True, events := events r1 @ [New_context]\<rparr> in
               (case new_page_fails v of
                  Some e \<Rightarrow> (Some e, result, r2)
                | None \<Rightarrow>
                   (case goto_fails v of
                      Some e \<Rightarrow> (Some e, result, r2)
                    | None \<Rightarrow>
                       (let selectors = get_price_selectors bracket_ok (url result) css_selector;
                            price0 = try_selectors (query v) selectors;
                            price1 = (if \<not> truthy price0 then fallback_price_extraction v
                                      else price0);
                            result1 =
                              (if truthy price1
                               then result\<lparr>price := price1, success := True\<rparr>
                               else result\<lparr>error := Some ''No price found with any selector''\<rparr>)
                        in (case close_fails v of
                              Some e \<Rightarrow> (Some e, result1, r2)
                            | None \<Rightarrow> (None, result1, browser_close r2)))))))))"

definition scrape_price ::
    "(string \<Rightarrow> bool) \<Rightarrow> visit \<Rightarrow> rat \<Rightarrow> string \<Rightarrow> string option \<Rightarrow> outcome \<times> resources" where
  "scrape_price bracket_ok v now u css_selector =
     (let result = \<lparr>url = u, price = None, success = False, error = None, timestamp = now\<rparr>;
          r0 = \<lparr>pw_running = False, browser_open = False, context_open = False, events = []\<rparr>;
          (exn, result1, r1) =
            (case start_fails v of
               Some e \<Rightarrow> (Some e, result, r0)
             | None \<Rightarrow>
                 (let (exn, result1, r1) =
                        browser_session bracket_ok v css_selector result
                          (r0\<lparr>pw_running := True, events := [Pw_start]\<rparr>)
                  in (exn, result1, playwright_exit r1)))
      in case exn of
           None \<Rightarrow> (result1, r1)
         | Some e \<Rightarrow>
             (result1\<lparr>error := Some (''Scraping error for '' @ u @ '': '' @ e)\<rparr>, r1))"

subsection \<open>The concurrent batch scraper: \<^verbatim>\<open>scrape_multiple\<close>\<close>




subsection \<open>The scheduled run: \<^verbatim>\<open>PriceScheduler.scrape_all_products\<close>\<close>

text \<open>The rows of the two tables (\<^verbatim>\<open>Product\<close>, \<^verbatim>\<open>PriceEntry\<close> of
  \<^verbatim>\<open>database.py\<close>); the column \<^verbatim>\<open>css_selector\<close> may be null.\<close>

record product =
  purl :: string
  label :: string
  css_selector :: "string option"

record price_entry =
  entry_url :: string
  entry_price :: rat

text \<open>The table \<^verbatim>\<open>prices\<close> in insertion order. \<^verbatim>\<open>add_price\<close> appends a row, or
  re-raises the \<^verbatim>\<open>sqlite3.Error\<close> of the insert: the one the environment reports,
  or the violated \<^verbatim>\<open>NOT NULL\<close> constraint when the price is \<^verbatim>\<open>None\<close>.\<close>

definition add_price ::
    "string option \<Rightarrow> string \<Rightarrow> rat option \<Rightarrow> price_entry list \<Rightarrow> string + (rat \<times> price_entry list)" where
  "add_price db_error u p db =
     (case db_error of
        Some e \<Rightarrow> Inl e
      | None \<Rightarrow>
         (case p of
            None \<Rightarrow> Inl ''NOT NULL constraint failed: prices.price''
          | Some x \<Rightarrow> Inr (x, db @ [\<lparr>entry_url = u, entry_price = x\<rparr>])))"

text \<open>\<^verbatim>\<open>get_latest_price\<close>: the newest row of the URL (rows are stamped on insertion,
  so the newest is the last inserted), \<^verbatim>\<open>None\<close> when there is none.\<close>

definition get_latest_price :: "price_entry list \<Rightarrow> string \<Rightarrow> price_entry option" where
  "get_latest_price db u =
     (case filter (\<lambda>e. entry_url e = u) db of
        [] \<Rightarrow> None
      | e # es \<Rightarrow> Some (last (e # es)))"

text \<open>The dictionary \<^verbatim>\<open>change_info\<close> (the spec's ChangeEvent).\<close>

record change_info =
  ci_product :: string
  ci_url :: string
  previous_price :: rat
  current_price :: rat
  change_amount :: rat
  change_percentage :: rat

text \<open>The dictionary the run returns; \<open>message\<close> is set by the early return only.\<close>

record batch =
  message :: "string option"
  products_scraped :: nat
  successful :: nat
  failed :: nat
  errors :: "string list"
  price_changes :: "change_info list"

text \<open>What outlives the run: the price table, \<^verbatim>\<open>self.stats\<close>, and the calls received
  by the notification manager (\<open>handed\<close>: the events passed to
  \<^verbatim>\<open>send_price_change_notification\<close>; \<open>summaries\<close>: the number of calls of
  \<^verbatim>\<open>send_scraping_summary\<close>).\<close>

record system =
  prices :: "price_entry list"
  total_scrapes :: nat
  successful_scrapes :: nat
  failed_scrapes :: nat
  notifications_sent :: nat
  handed :: "change_info list"
  summaries :: nat

text \<open>The scheduler's configuration: \<open>notifications_enabled\<close> is
  \<^verbatim>\<open>self.notification_manager is not None\<close>.\<close>

record scheduler =
  notification_threshold :: rat
  notifications_enabled :: bool

text \<open>What the environment does while one product is processed: its page visit, an
  exception leaving \<^verbatim>\<open>scrape_sync\<close> itself, a database error on insert, and whether
  \<^verbatim>\<open>send_price_change_notification\<close> raises (it otherwise returns a delivery flag
  that the scheduler ignores).\<close>

record item_world =
  item_visit :: visit
  run_fails :: "string option"
  add_price_fails :: "string option"
  notify_raises :: bool

text \<open>The handler of the loop body, lines 168 to 172.\<close>

definition handle_exception :: "product \<Rightarrow> string \<Rightarrow> batch \<times> system \<Rightarrow> batch \<times> system" where
  "handle_exception p e bs =
     (case bs of (b, s) \<Rightarrow>
        (b\<lparr>failed := failed b + 1,
           errors := errors b @ [''Exception scraping '' @ label p @ '': '' @ e]\<rparr>, s))"

text \<open>Lines 128 to 150. The division raises \<^verbatim>\<open>ZeroDivisionError\<close> on a previous price
  of zero; an exception of the notification call is caught on the spot.\<close>

definition check_price_change ::
    "scheduler \<Rightarrow> item_world \<Rightarrow> product \<Rightarrow> rat option \<Rightarrow> rat \<Rightarrow> batch \<times> system
       \<Rightarrow> string option \<times> batch \<times> system" where
  "check_price_change cfg env p previous cur bs =
     (case bs of (b, s) \<Rightarrow>
      (case previous of
         None \<Rightarrow> (None, b, s)
       | Some prev \<Rightarrow>
          (if prev = 0 then (Some ''float division by zero'', b, s)
           else
            (let price_change = ((cur - prev) / prev) * 100 in
             if \<bar>price_change\<bar> \<ge> notification_threshold cfg then
               (let info = \<lparr>ci_product = label p, ci_url = purl p, previous_price = prev,
                            current_price = cur, change_amount = cur - prev,
                            change_percentage = price_change\<rparr>;
                    b1 = b\<lparr>price_changes := price_changes b @ [info]\<rparr>
                in if notifications_enabled cfg then
                     (if notify_raises env then (None, b1, s\<lparr>handed := handed s @ [info]\<rparr>)
                      else (None, b1, s\<lparr>handed := handed s @ [info],
                                         notifications_sent := notifications_sent s + 1\<rparr>))
                   else (None, b1, s))
             else (None, b, s)))))"

text \<open>\<^verbatim>\<open>scrape_result.get('error', 'Unknown error')\<close> inside the f-string: the key is
  always present, and \<^verbatim>\<open>None\<close> prints as \<^verbatim>\<open>None\<close>.\<close>

definition error_text :: "string option \<Rightarrow> string" where
  "error_text e = (case e of None \<Rightarrow> ''None'' | Some m \<Rightarrow> m)"

text \<open>The loop body, lines 108 to 172.\<close>

definition process_product ::
    "scheduler \<Rightarrow> (string \<Rightarrow> bool) \<Rightarrow> rat \<Rightarrow> item_world \<Rightarrow> product \<Rightarrow> batch \<times> system
       \<Rightarrow> batch \<times> system" where
  "process_product cfg bracket_ok now env p bs =
     (case bs of (b, s) \<Rightarrow>
      (let previous_price = map_option entry_price (get_latest_price (prices s) (purl p)) in
       (case run_fails env of
          Some e \<Rightarrow> handle_exception p e (b, s)
        | None \<Rightarrow>
           (let scrape_result =
                  fst (scrape_price bracket_ok (item_visit env) now (purl p) (css_selector p))
            in if success scrape_result then
                 (case add_price (add_price_fails env) (purl p) (price scrape_result) (prices s) of
                    Inl e \<Rightarrow> handle_exception p e (b, s)
                  | Inr (cur, db) \<Rightarrow>
                     (case check_price_change cfg env p previous_price cur
                             (b\<lparr>successful := successful b + 1\<rparr>, s\<lparr>prices := db\<rparr>) of
                        (Some e, b2, s2) \<Rightarrow> handle_exception p e (b2, s2)
                      | (None, b2, s2) \<Rightarrow>
                          (b2, s2\<lparr>total_scrapes := total_scrapes s2 + 1,
                                  successful_scrapes := successful_scrapes s2 + 1\<rparr>)))
               else
                 (b\<lparr>failed := failed b + 1,
                    errors := errors b @
                      [''Failed to scrape '' @ label p @ '': '' @ error_text (error scrape_result)]\<rparr>,
                  s\<lparr>total_scrapes := total_scrapes s + 1,
                    failed_scrapes := failed_scrapes s + 1\<rparr>)))))"

text \<open>The \<^verbatim>\<open>for product in products\<close> loop; \<open>world i\<close> is the environment of the
  \<open>i\<close>-th product.\<close>

fun run_products ::
    "scheduler \<Rightarrow> (string \<Rightarrow> bool) \<Rightarrow> rat \<Rightarrow> (nat \<Rightarrow> item_world) \<Rightarrow> nat \<Rightarrow> product list
       \<Rightarrow> batch \<times> system \<Rightarrow> batch \<times> system" where
  "run_products cfg bracket_ok now world i [] bs = bs"
| "run_products cfg bracket_ok now world i (p # ps) bs =
     run_products cfg bracket_ok now world (Suc i) ps
       (process_product cfg bracket_ok now (world i) p bs)"

text \<open>\<^verbatim>\<open>scrape_all_products\<close>: \<open>products\<close> is what \<^verbatim>\<open>self.db.get_products()\<close>
  returned.\<close>

definition scrape_all_products ::
    "scheduler \<Rightarrow> (string \<Rightarrow> bool) \<Rightarrow> rat \<Rightarrow> (nat \<Rightarrow> item_world) \<Rightarrow> product list \<Rightarrow> system
       \<Rightarrow> batch \<times> system" where
  "scrape_all_products cfg bracket_ok now world products s =
     (if products = [] then
        (\<lparr>message = Some ''No products to scrape'', products_scraped = 0, successful = 0,
          failed = 0, errors = [], price_changes = []\<rparr>, s)
      else
        (case run_products cfg bracket_ok now world 0 products
                (\<lparr>message = None, products_scraped = length products, successful = 0,
                  failed = 0, errors = [], price_changes = []\<rparr>, s) of
           (b, s1) \<Rightarrow>
             (b, if price_changes b \<noteq> [] \<and> notifications_enabled cfg
                 then s1\<lparr>summaries := summaries s1 + 1\<rparr> else s1)))"

subsection \<open>Reference descriptions used in the statements\<close>

text \<open>A decimal numeral: digits with at most one period and at least one digit.\<close>

definition decimal_numeral :: "string \<Rightarrow> bool" where
  "decimal_numeral s =
     (list_all (\<lambda>c. is_digit c \<or> c = CHR ''.'') s \<and> count_list s (CHR ''.'') \<le> 1 \<and>
      list_ex is_digit s)"

text \<open>The comma-only rule in words: the string has one comma, and at most two
  characters follow it.\<close>

definition comma_is_decimal :: "string \<Rightarrow> bool" where
  "comma_is_decimal s =
     (count_list s (CHR '','') = 1 \<and>
      length (rev (takeWhile (\<lambda>c. c \<noteq> CHR '','') (rev s))) \<le> 2)"

text \<open>The two-separator rule in the spec's words: the separator that appears later in
  the string is the decimal point, the other one is removed.\<close>

definition later_separator_rule :: "string \<Rightarrow> string" where
  "later_separator_rule s =
     (if last (filter (\<lambda>c. c = CHR ''.'' \<or> c = CHR '','') s) = CHR ''.''
      then remove_char (CHR '','') s
      else replace_char (CHR '','') (CHR ''.'') (remove_char (CHR ''.'') s))"

text \<open>Stripping a leading \<^verbatim>\<open>www.\<close> from a host, as the spec words it.\<close>

definition strip_leading_www :: "string \<Rightarrow> string" where
  "strip_leading_www host = (if take 4 host = ''www.'' then drop 4 host else host)"


subsection \<open>Sample environments for the concrete evaluations\<close>

text \<open>A page that loads without any failure, has one element with text \<open>t\<close> under
  the selector \<^verbatim>\<open>.price\<close>, none under any other selector, and no text that matches a
  fallback pattern.\<close>

definition plain_page :: "string \<Rightarrow> visit" where
  "plain_page t =
     \<lparr>start_fails = None, launch_fails = None, new_context_fails = None,
      new_page_fails = None, goto_fails = None,
      query = (\<lambda>sel. if sel = ''.price'' then Some [Some t] else Some []),
      fallback_matches = Some [], close_fails = None\<rparr>"

text \<open>A tracked product with the selector \<^verbatim>\<open>.price\<close>; an environment in which its page
  shows the text \<open>t\<close> and neither the scrape nor the database fails (\<open>nr\<close>: the
  notification call raises); a store whose only reading of the product is \<open>x\<close>; and the
  result dictionary at the start of a run over \<open>n\<close> products.\<close>

definition shop_item :: product where
  "shop_item = \<lparr>purl = ''https://shop.example/b'', label = ''Widget'',
                 css_selector = Some ''.price''\<rparr>"

definition quiet_world :: "string \<Rightarrow> bool \<Rightarrow> item_world" where
  "quiet_world t nr =
     \<lparr>item_visit = plain_page t, run_fails = None, add_price_fails = None, notify_raises = nr\<rparr>"

definition store_with :: "rat \<Rightarrow> system" where
  "store_with x =
     \<lparr>prices = [\<lparr>entry_url = ''https://shop.example/b'', entry_price = x\<rparr>],
      total_scrapes = 0, successful_scrapes = 0, failed_scrapes = 0, notifications_sent = 0,
      handed = [], summaries = 0\<rparr>"


section \<open>Properties\<close>

subsection \<open>Lemmas on the string primitives\<close>

lemma later_separator_rev:
  "c \<in> set r \<Longrightarrow> d \<in> set r \<Longrightarrow> c \<noteq> d \<Longrightarrow>
   (length (takeWhile (\<lambda>x. x \<noteq> d) r) < length (takeWhile (\<lambda>x. x \<noteq> c) r))
     = (hd (filter (\<lambda>x. x = d \<or> x = c) r) = d)"
  by (induction r) auto

lemma takeWhile_shorter:
  "c \<in> set r \<Longrightarrow> length (takeWhile (\<lambda>x. x \<noteq> c) r) < length r"
  by (induction r) auto

lemma rindex_less_iff:
  assumes "c \<in> set s" "d \<in> set s" "c \<noteq> d"
  shows "(case (rindex s c, rindex s d) of (Some i, Some j) \<Rightarrow> i < j | _ \<Rightarrow> False)
           = (last (filter (\<lambda>x. x = d \<or> x = c) s) = d)"
proof -
  let ?a = "length (takeWhile (\<lambda>x. x \<noteq> c) (rev s))"
  let ?b = "length (takeWhile (\<lambda>x. x \<noteq> d) (rev s))"
  have a: "?a < length s"
    using assms(1) takeWhile_shorter [of c "rev s"] by simp
  have b: "?b < length s"
    using assms(2) takeWhile_shorter [of d "rev s"] by simp
  have "(length s - Suc ?a < length s - Suc ?b) = (?b < ?a)"
    using a b by arith
  also have "\<dots> = (hd (filter (\<lambda>x. x = d \<or> x = c) (rev s)) = d)"
    using later_separator_rev [of c "rev s" d] assms by simp
  also have "\<dots> = (last (filter (\<lambda>x. x = d \<or> x = c) s) = d)"
    by (simp add: rev_filter [symmetric] hd_rev)
  finally show ?thesis
    using assms by (simp add: rindex_def)
qed

lemma both_separators:
  assumes "CHR '','' \<in> set s" "CHR ''.'' \<in> set s"
  shows "normalize_separators s = later_separator_rule s"
  using rindex_less_iff [of "CHR '',''" s "CHR ''.''"] assms
  by (auto simp: normalize_separators_def later_separator_rule_def rindex_def split: option.splits)


lemma split_char_absent: "c \<notin> set s \<Longrightarrow> split_char c s = [s]"
  by (induction s) auto

lemma split_char_nonempty: "split_char c s \<noteq> []"
  by (induction s) (auto split: list.splits)

lemma length_split_char: "length (split_char c s) = Suc (count_list s c)"
  by (induction s) (auto split: list.splits simp: split_char_nonempty)

lemma split_char_first: "c \<notin> set a \<Longrightarrow> split_char c (a @ c # b) = a # split_char c b"
  by (induction a) (auto split: list.splits)

lemma count_one_decompose:
  "count_list s c = 1 \<Longrightarrow> \<exists>a b. s = a @ c # b \<and> c \<notin> set a \<and> c \<notin> set b"
proof (induction s)
  case Nil
  then show ?case by simp
next
  case (Cons x s)
  show ?case
  proof (cases "x = c")
    case True
    with Cons.prems have "count_list s c = 0" by simp
    then have "c \<notin> set s" by (simp add: count_list_0_iff)
    with True show ?thesis by (intro exI [of _ "[]"] exI [of _ s]) simp
  next
    case False
    with Cons.prems have "count_list s c = 1" by simp
    from Cons.IH [OF this] obtain a b where "s = a @ c # b" "c \<notin> set a" "c \<notin> set b"
      by blast
    with False show ?thesis by (intro exI [of _ "x # a"] exI [of _ b]) simp
  qed
qed

lemma takeWhile_upto:
  "c \<notin> set a \<Longrightarrow> takeWhile (\<lambda>x. x \<noteq> c) (a @ c # b) = a"
  by (induction a) auto

lemma split_char_one:
  assumes "count_list s c = 1"
  shows "split_char c s = [takeWhile (\<lambda>x. x \<noteq> c) s, rev (takeWhile (\<lambda>x. x \<noteq> c) (rev s))]"
proof -
  from count_one_decompose [OF assms] obtain a b
    where s: "s = a @ c # b" and a: "c \<notin> set a" and b: "c \<notin> set b" by blast
  have 1: "takeWhile (\<lambda>x. x \<noteq> c) s = a"
    using a by (simp add: s takeWhile_upto)
  have "takeWhile (\<lambda>x. x \<noteq> c) (rev b @ c # rev a) = rev b"
    using b by (simp add: takeWhile_upto)
  then have 2: "rev (takeWhile (\<lambda>x. x \<noteq> c) (rev s)) = b"
    by (simp add: s)
  show ?thesis
    using a b by (simp add: 1 2) (simp add: s split_char_first split_char_absent)
qed

lemma comma_only:
  assumes "CHR '','' \<in> set s" "CHR ''.'' \<notin> set s"
  shows "normalize_separators s =
           (if comma_is_decimal s then replace_char (CHR '','') (CHR ''.'') s
            else remove_char (CHR '','') s)"
proof (cases "count_list s (CHR '','') = 1")
  case True
  then show ?thesis
    using assms
    by (simp add: normalize_separators_def comma_is_decimal_def Let_def split_char_one)
next
  case False
  then show ?thesis
    using assms
    by (simp add: normalize_separators_def comma_is_decimal_def Let_def length_split_char)
qed


lemma py_float_nonneg: "py_float s = Some p \<Longrightarrow> 0 \<le> p"
  by (auto simp: py_float_def split: list.splits if_splits)

lemma py_float_None_iff: "py_float s = None \<longleftrightarrow> \<not> decimal_numeral s"
proof -
  consider (zero) "count_list s (CHR ''.'') = 0" | (one) "count_list s (CHR ''.'') = 1"
    | (more) "2 \<le> count_list s (CHR ''.'')" by arith
  then show ?thesis
  proof cases
    case zero
    then have n: "CHR ''.'' \<notin> set s" by (simp add: count_list_0_iff)
    then have "list_all (\<lambda>c. is_digit c \<or> c = CHR ''.'') s = list_all is_digit s"
      by (auto simp: list_all_iff)
    moreover have "list_all is_digit s \<Longrightarrow> list_ex is_digit s = (s \<noteq> [])"
      by (cases s) (auto simp: list_ex_iff)
    ultimately show ?thesis
      using n zero by (auto simp: py_float_def decimal_numeral_def split_char_absent)
  next
    case one
    from count_one_decompose [OF one] obtain a b
      where s: "s = a @ CHR ''.'' # b" and a: "CHR ''.'' \<notin> set a" and b: "CHR ''.'' \<notin> set b"
      by blast
    have sp: "split_char (CHR ''.'') s = [a, b]"
      using a b by (simp add: s split_char_first split_char_absent)
    have al: "list_all (\<lambda>c. is_digit c \<or> c = CHR ''.'') s = (list_all is_digit a \<and> list_all is_digit b)"
      using a b by (auto simp: s list_all_iff)
    have ex: "list_all is_digit a \<Longrightarrow> list_all is_digit b \<Longrightarrow>
              list_ex is_digit s = (a \<noteq> [] \<or> b \<noteq> [])"
      by (cases a; cases b) (auto simp: s list_ex_iff is_digit_def)
    show ?thesis
      using one ex by (auto simp: py_float_def decimal_numeral_def sp al)
  next
    case more
    then have "3 \<le> length (split_char (CHR ''.'') s)" by (simp add: length_split_char)
    then have "py_float s = None"
      by (auto simp: py_float_def split: list.splits)
    with more show ?thesis by (simp add: decimal_numeral_def)
  qed
qed

lemmas parser_defs = clean_price_text_def py_float_def normalize_separators_def keep_price_chars_def
  py_strip_def is_digit_def is_space_def digit_val_def digits_val_def rindex_def remove_char_def
  replace_char_def

subsection \<open>The numeric price parser\<close>

text \<open>
  Claim C1 as stated does not hold: the parser deletes the minus sign with every other
  character that is not a digit, a period or a comma, so \<^verbatim>\<open>parse("-5.00")\<close> is
  \<open>5\<close>, not null.
\<close>

theorem clean_price_text_negative_cex:
  "clean_price_text ''-5.00'' = Some 5 \<and> clean_price_text ''-5.00'' \<noteq> None"
  by (simp add: parser_defs)

text \<open>
  Claim C1, amended: the parser returns null exactly when the text is empty or its
  cleaned, separator-normalised form is not a decimal numeral; every value it returns
  is non-negative, and zero is returned as \<open>0\<close> (the positivity test is made by the
  callers); \<^verbatim>\<open>parse("abc")\<close> is null.
\<close>

theorem clean_price_text_null:
  "(clean_price_text t = None \<longleftrightarrow>
      t = [] \<or> \<not> decimal_numeral (normalize_separators (keep_price_chars (py_strip t)))) \<and>
   (\<forall>p. clean_price_text t = Some p \<longrightarrow> 0 \<le> p) \<and>
   clean_price_text ''abc'' = None \<and>
   clean_price_text ''0'' = Some 0"
proof -
  have "clean_price_text ''abc'' = None" by (simp add: parser_defs)
  moreover have "clean_price_text ''0'' = Some 0" by (simp add: parser_defs)
  moreover have "\<forall>p. clean_price_text t = Some p \<longrightarrow> 0 \<le> p"
    by (auto simp: clean_price_text_def dest: py_float_nonneg split: if_splits)
  ultimately show ?thesis
    by (simp add: clean_price_text_def py_float_None_iff)
qed

theorem clean_price_text_null_witness:
  "clean_price_text ''$0.50'' = Some (1 / 2) \<and> (0::rat) \<le> 1 / 2 \<and>
   decimal_numeral (normalize_separators (keep_price_chars (py_strip ''$0.50'')))"
proof -
  have v: "clean_price_text ''$0.50'' = Some (1 / 2)" by (simp add: parser_defs)
  from clean_price_text_null [of "''$0.50''"] v show ?thesis by simp
qed

text \<open>
  Claim C2 as stated does not hold: a single comma followed by one digit (or by none)
  is a decimal comma too, since the test is \<^verbatim>\<open>len(parts[1]) <= 2\<close>.
\<close>

theorem comma_one_digit_cex:
  "CHR '','' \<in> set (keep_price_chars ''12,5'') \<and> CHR ''.'' \<notin> set (keep_price_chars ''12,5'') \<and>
   normalize_separators (keep_price_chars ''12,5'') = ''12.5'' \<and>
   clean_price_text ''12,5'' = Some (25 / 2) \<and> clean_price_text ''12,5'' \<noteq> Some 125"
  by (simp add: parser_defs)

text \<open>
  Claim C2, amended: for a cleaned string with a comma and no period, the comma is
  turned into the decimal point exactly when it is the only comma and at most two
  characters follow it; in every other case all commas are removed.
\<close>

theorem comma_only_rule:
  "CHR '','' \<in> set s \<Longrightarrow> CHR ''.'' \<notin> set s \<Longrightarrow>
     normalize_separators s =
       (if comma_is_decimal s then replace_char (CHR '','') (CHR ''.'') s
        else remove_char (CHR '','') s)"
  by (rule comma_only)

theorem comma_only_rule_witness:
  "CHR '','' \<in> set ''12,5'' \<and> CHR ''.'' \<notin> set ''12,5'' \<and> comma_is_decimal ''12,5'' \<and>
   normalize_separators ''12,5'' = ''12.5'' \<and>
   CHR '','' \<in> set ''1,234'' \<and> CHR ''.'' \<notin> set ''1,234'' \<and> \<not> comma_is_decimal ''1,234'' \<and>
   normalize_separators ''1,234'' = ''1234''"
proof -
  have a: "CHR '','' \<in> set ''12,5''" "CHR ''.'' \<notin> set ''12,5''" by simp_all
  have b: "CHR '','' \<in> set ''1,234''" "CHR ''.'' \<notin> set ''1,234''" by simp_all
  have c: "comma_is_decimal ''12,5''" "\<not> comma_is_decimal ''1,234''"
    by (simp_all add: comma_is_decimal_def)
  from comma_only_rule [OF a] comma_only_rule [OF b] c show ?thesis
    by (simp add: replace_char_def remove_char_def)
qed

text \<open>
  Claim C8: when the cleaned string has both a comma and a period, the separator that
  appears later is the decimal point and the other one is removed; so
  \<^verbatim>\<open>parse("1,234.56")\<close> and \<^verbatim>\<open>parse("1.234,56")\<close> are both \<open>1234.56\<close>.
\<close>

theorem later_separator_is_decimal:
  "(CHR '','' \<in> set s \<and> CHR ''.'' \<in> set s \<longrightarrow>
      normalize_separators s = later_separator_rule s) \<and>
   clean_price_text ''1,234.56'' = Some (123456 / 100) \<and>
   clean_price_text ''1.234,56'' = Some (123456 / 100)"
proof -
  have "clean_price_text ''1,234.56'' = Some (123456 / 100)" by (simp add: parser_defs)
  moreover have "clean_price_text ''1.234,56'' = Some (123456 / 100)" by (simp add: parser_defs)
  ultimately show ?thesis by (simp add: both_separators)
qed

theorem later_separator_is_decimal_witness:
  "CHR '','' \<in> set ''1.234,56'' \<and> CHR ''.'' \<in> set ''1.234,56'' \<and>
   normalize_separators ''1.234,56'' = ''1234.56''"
proof -
  have "later_separator_rule ''1.234,56'' = ''1234.56''"
    by (simp add: later_separator_rule_def replace_char_def remove_char_def)
  with later_separator_is_decimal [of "''1.234,56''"] show ?thesis by simp
qed

lemma normalize_separators_alphabet:
  "set (normalize_separators (keep_price_chars s)) \<subseteq> {c. is_digit c \<or> c = CHR ''.''}"
  by (auto simp: normalize_separators_def keep_price_chars_def remove_char_def replace_char_def
        rindex_def Let_def is_digit_def)

subsection \<open>Selector resolution\<close>

lemmas url_defs = get_domain_def urlsplit_netloc_def split_scheme_def scheme_chars_def
  is_ascii_alpha_def py_lower_def

lemma py_replace_absent: "\<not> contains old s \<Longrightarrow> py_replace old new s = s"
  by (induction old new s rule: py_replace.induct) auto

lemma py_replace_prefix:
  assumes "old \<noteq> []"
  shows "py_replace old new (old @ r) = new @ py_replace old new r"
proof -
  from assms obtain x xs where e: "old @ r = x # xs" by (cases old) auto
  have "take (length old) (x # xs) = old" "drop (length old) (x # xs) = r"
    using e [symmetric] by simp_all
  then have "py_replace old new (x # xs) = new @ py_replace old new r"
    using assms by simp
  then show ?thesis by (simp add: e)
qed

text \<open>
  Claim C3 as stated does not hold: \<^verbatim>\<open>replace('www.', '')\<close> deletes every occurrence
  of \<^verbatim>\<open>www.\<close> in the host, not only a leading one.
\<close>

theorem get_domain_inner_www_cex:
  "urlsplit_netloc (\<lambda>_. True) ''https://shop.www.example.com/item'' = Some ''shop.www.example.com'' \<and>
   strip_leading_www ''shop.www.example.com'' = ''shop.www.example.com'' \<and>
   get_domain (\<lambda>_. True) ''https://shop.www.example.com/item'' = ''shop.example.com''"
  by (simp add: url_defs strip_leading_www_def)

text \<open>
  Claim C3, amended: the domain used for the lookup is the netloc of the URL (what
  stands between the scheme with its \<^verbatim>\<open>//\<close> and the first \<^verbatim>\<open>/\<close>, \<^verbatim>\<open>?\<close> or
  \<^verbatim>\<open>#\<close>), in lower case, with every occurrence of \<^verbatim>\<open>www.\<close> removed; when no
  occurrence is left after stripping a leading \<^verbatim>\<open>www.\<close>, this is the lower-case
  netloc without that prefix; the domain is empty when the URL does not parse.
\<close>

theorem get_domain_www:
  "(urlsplit_netloc bo u = None \<longrightarrow> get_domain bo u = []) \<and>
   (\<forall>n. urlsplit_netloc bo u = Some n \<longrightarrow>
      get_domain bo u = py_replace ''www.'' [] (py_lower n) \<and>
      (\<not> contains ''www.'' (strip_leading_www (py_lower n)) \<longrightarrow>
         get_domain bo u = strip_leading_www (py_lower n)))"
proof -
  have a: "\<not> contains ''www.'' s \<Longrightarrow> py_replace ''www.'' [] s = s" for s
    by (rule py_replace_absent)
  have b: "py_replace ''www.'' [] s = strip_leading_www s"
    if "\<not> contains ''www.'' (strip_leading_www s)" for s
  proof (cases "take 4 s = ''www.''")
    case True
    then have "s = ''www.'' @ drop 4 s" by (metis append_take_drop_id)
    then have "py_replace ''www.'' [] s = py_replace ''www.'' [] (drop 4 s)"
      using py_replace_prefix [of "''www.''" "[]" "drop 4 s"] by simp
    with that True show ?thesis by (simp add: a strip_leading_www_def)
  next
    case False
    with that show ?thesis by (simp add: a strip_leading_www_def)
  qed
  show ?thesis by (auto simp: get_domain_def b)
qed

theorem get_domain_www_witness:
  "urlsplit_netloc (\<lambda>_. True) ''https://WWW.Amazon.com/product/123'' = Some ''WWW.Amazon.com'' \<and>
   \<not> contains ''www.'' (strip_leading_www (py_lower ''WWW.Amazon.com'')) \<and>
   get_domain (\<lambda>_. True) ''https://WWW.Amazon.com/product/123'' = ''amazon.com'' \<and>
   urlsplit_netloc (\<lambda>_. False) ''http://[::1/x'' = None \<and>
   get_domain (\<lambda>_. False) ''http://[::1/x'' = []"
proof -
  have n: "urlsplit_netloc (\<lambda>_. True) ''https://WWW.Amazon.com/product/123'' = Some ''WWW.Amazon.com''"
    by (simp add: urlsplit_netloc_def split_scheme_def scheme_chars_def is_ascii_alpha_def)
  have c: "strip_leading_www (py_lower ''WWW.Amazon.com'') = ''amazon.com''"
    by (simp add: strip_leading_www_def py_lower_def)
  have d: "\<not> contains ''www.'' ''amazon.com''" by simp
  have m: "urlsplit_netloc (\<lambda>_. False) ''http://[::1/x'' = None"
    by (simp add: urlsplit_netloc_def split_scheme_def scheme_chars_def is_ascii_alpha_def)
  have g: "get_domain (\<lambda>_. True) ''https://WWW.Amazon.com/product/123'' = ''amazon.com''"
    using get_domain_www [of "\<lambda>_. True" "''https://WWW.Amazon.com/product/123''"] n c d
    by auto
  have h: "get_domain (\<lambda>_. False) ''http://[::1/x'' = []"
    using get_domain_www [of "\<lambda>_. False" "''http://[::1/x''"] m by auto
  from n c d m g h show ?thesis by simp
qed

lemma site_lookup_find:
  "site_lookup tbl d = map_option snd (find (\<lambda>(site, sels). contains site d) tbl)"
  by (induction tbl) auto

lemma contains_iff: "contains sub s \<longleftrightarrow> (\<exists>a b. s = a @ sub @ b)"
proof (induction s)
  case Nil
  then show ?case by auto
next
  case (Cons x s)
  have "(\<exists>a b. x # s = a @ sub @ b) \<longleftrightarrow>
        (\<exists>b. x # s = sub @ b) \<or> (\<exists>a b. s = a @ sub @ b)"
  proof
    assume "\<exists>a b. x # s = a @ sub @ b"
    then obtain a b where ab: "x # s = a @ sub @ b" by blast
    show "(\<exists>b. x # s = sub @ b) \<or> (\<exists>a b. s = a @ sub @ b)"
    proof (cases a)
      case Nil
      with ab show ?thesis by auto
    next
      case (Cons y a')
      with ab have "s = a' @ sub @ b" by simp
      then show ?thesis by blast
    qed
  next
    assume "(\<exists>b. x # s = sub @ b) \<or> (\<exists>a b. s = a @ sub @ b)"
    then show "\<exists>a b. x # s = a @ sub @ b"
    proof
      assume "\<exists>b. x # s = sub @ b"
      then obtain b where "x # s = [] @ sub @ b" by auto
      then show ?thesis by blast
    next
      assume "\<exists>a b. s = a @ sub @ b"
      then obtain a b where "x # s = (x # a) @ sub @ b" by auto
      then show ?thesis by blast
    qed
  qed
  moreover have "(take (length sub) (x # s) = sub) \<longleftrightarrow> (\<exists>b. x # s = sub @ b)"
    by (metis append_eq_conv_conj)
  ultimately show ?case using Cons.IH by simp
qed

lemma site_selectors_nonempty:
  "site_lookup price_selectors d = Some sels \<Longrightarrow> sels \<noteq> []"
  by (auto simp: price_selectors_def split: if_splits)

text \<open>
  Claim C7: a non-empty override gives exactly \<open>[override]\<close>; without one, the list
  of the first known site (in declaration order) whose name is a substring of the
  domain (\<open>contains_iff\<close>), and the generic list when no site matches; the result is
  never empty.
\<close>

theorem get_price_selectors_cases:
  "(ov \<noteq> [] \<longrightarrow> get_price_selectors bo u (Some ov) = [ov]) \<and>
   (c = None \<or> c = Some [] \<longrightarrow>
      get_price_selectors bo u c =
        (case find (\<lambda>(site, sels). contains site (get_domain bo u)) price_selectors of
           Some (site, sels) \<Rightarrow> sels
         | None \<Rightarrow> generic_selectors)) \<and>
   get_price_selectors bo u c' \<noteq> []"
proof -
  have "get_price_selectors bo u c' \<noteq> []"
    by (auto simp: get_price_selectors_def generic_selectors_def
          dest: site_selectors_nonempty split: option.splits)
  moreover have "c = None \<or> c = Some [] \<Longrightarrow>
      get_price_selectors bo u c =
        (case find (\<lambda>(site, sels). contains site (get_domain bo u)) price_selectors of
           Some (site, sels) \<Rightarrow> sels
         | None \<Rightarrow> generic_selectors)"
    by (auto simp: get_price_selectors_def site_lookup_find split: option.splits)
  ultimately show ?thesis
    by (simp add: get_price_selectors_def)
qed

lemma amazon_domain:
  "get_domain (\<lambda>_. True) ''https://www.amazon.com/product/123'' = ''amazon.com''"
  by (simp add: url_defs)

lemma unknown_domain:
  "get_domain (\<lambda>_. True) ''https://example-store.co.uk/products/test'' = ''example-store.co.uk''"
  by (simp add: url_defs)

theorem get_price_selectors_cases_witness:
  "get_price_selectors (\<lambda>_. True) ''https://www.amazon.com/product/123'' (Some ''.cost'') = [''.cost''] \<and>
   get_price_selectors (\<lambda>_. True) ''https://www.amazon.com/product/123'' None =
     [''.a-price-whole'', ''.a-offscreen'', ''#priceblock_dealprice'',
      ''#priceblock_ourprice'', ''.a-price .a-offscreen''] \<and>
   get_price_selectors (\<lambda>_. True) ''https://example-store.co.uk/products/test'' (Some []) =
     generic_selectors"
proof -
  have 1: "get_price_selectors (\<lambda>_. True) ''https://www.amazon.com/product/123'' (Some ''.cost'') = [''.cost'']"
    using get_price_selectors_cases [of "''.cost''" "\<lambda>_. True" "''https://www.amazon.com/product/123''" None None]
    by simp
  have 2: "get_price_selectors (\<lambda>_. True) ''https://www.amazon.com/product/123'' None =
     [''.a-price-whole'', ''.a-offscreen'', ''#priceblock_dealprice'',
      ''#priceblock_ourprice'', ''.a-price .a-offscreen'']"
    using get_price_selectors_cases [of "''x''" "\<lambda>_. True" "''https://www.amazon.com/product/123''" None None]
    by (simp add: amazon_domain price_selectors_def)
  have 3: "get_price_selectors (\<lambda>_. True) ''https://example-store.co.uk/products/test'' (Some []) =
     generic_selectors"
    using get_price_selectors_cases [of "''x''" "\<lambda>_. True" "''https://example-store.co.uk/products/test''" "Some []" None]
    by (simp add: unknown_domain price_selectors_def)
  from 1 2 3 show ?thesis by simp
qed

subsection \<open>The page price extractor\<close>

text \<open>When navigation raises, the explicit \<^verbatim>\<open>browser.close()\<close> of line 184 is
  skipped: the body of the \<^verbatim>\<open>async with\<close> block is left with browser and context
  still open, and it is the exit of the block that releases them.\<close>

lemma browser_session_exn_keeps_context:
  "launch_fails v = None \<Longrightarrow> new_context_fails v = None \<Longrightarrow> new_page_fails v = None \<Longrightarrow>
   goto_fails v = Some e \<Longrightarrow>
   browser_session bo v css result r =
     (Some e, result, r\<lparr>browser_open := True, context_open := True,
                         events := events r @ [Launch, New_context]\<rparr>)"
  by (simp add: browser_session_def)

lemma browser_session_events:
  "browser_session bo v css result r = (exn, result', r') \<Longrightarrow>
   \<exists>es. events r' = events r @ es \<and> Pw_exit \<notin> set es \<and>
        (exn = None \<longrightarrow> \<not> browser_open r' \<and> \<not> context_open r')"
  by (auto simp: browser_session_def browser_close_def Let_def split: option.splits)

text \<open>
  Claim C4: whatever the visit does (any of the awaited calls may raise), when
  \<^verbatim>\<open>scrape_price\<close> returns neither the browsing context, nor the browser, nor the
  Playwright driver is still held; and either nothing was ever started, or the last
  resource event of the call is the exit of the \<^verbatim>\<open>async with async_playwright()\<close>
  block.
\<close>

theorem scrape_price_teardown:
  "\<not> context_open (snd (scrape_price bo v now u css)) \<and>
   \<not> browser_open (snd (scrape_price bo v now u css)) \<and>
   \<not> pw_running (snd (scrape_price bo v now u css)) \<and>
   (events (snd (scrape_price bo v now u css)) = [] \<or>
    last (events (snd (scrape_price bo v now u css))) = Pw_exit)"
  by (auto simp: scrape_price_def playwright_exit_def Let_def split: option.splits prod.splits)

text \<open>An exception raised before the price is looked for (driver start, browser
  launch, context or page creation, navigation) gives a failed outcome with the
  exception's text, the URL and no price.\<close>

lemma scrape_price_early_exception:
  assumes "start_fails v = Some e \<or>
           (start_fails v = None \<and> (launch_fails v = Some e \<or>
             (launch_fails v = None \<and> (new_context_fails v = Some e \<or>
               (new_context_fails v = None \<and> (new_page_fails v = Some e \<or>
                 (new_page_fails v = None \<and> goto_fails v = Some e)))))))"
  shows "fst (scrape_price bo v now u css) =
           \<lparr>url = u, price = None, success = False,
            error = Some (''Scraping error for '' @ u @ '': '' @ e), timestamp = now\<rparr>"
  using assms by (auto simp: scrape_price_def browser_session_def Let_def)

subsection \<open>The concurrent batch scraper\<close>






subsection \<open>Accepted prices are positive\<close>

lemma first_price_pos: "first_price es = Some p \<Longrightarrow> 0 < p"
  by (induction es rule: first_price.induct) (auto split: option.splits if_splits)

lemma try_selectors_pos: "try_selectors q sels = Some p \<Longrightarrow> 0 < p"
  by (induction sels) (auto split: option.splits dest: first_price_pos)

lemma first_in_range_bounds: "first_in_range ms = Some p \<Longrightarrow> 1 / 100 \<le> p \<and> p \<le> 999999"
  by (induction ms) (auto split: option.splits if_splits)

lemma scan_patterns_bounds: "scan_patterns mss = Some p \<Longrightarrow> 1 / 100 \<le> p \<and> p \<le> 999999"
  by (induction mss) (auto split: option.splits dest: first_in_range_bounds)

lemma fallback_bounds:
  "fallback_price_extraction v = Some p \<Longrightarrow> 1 / 100 \<le> p \<and> p \<le> 999999"
  by (auto simp: fallback_price_extraction_def split: option.splits dest: scan_patterns_bounds)

lemma browser_session_success:
  assumes "browser_session bo v css result r = (exn, result', r')" "\<not> success result"
    and "success result'"
  shows "\<exists>p. price result' = Some p \<and> 0 < p"
proof -
  let ?p0 = "try_selectors (query v) (get_price_selectors bo (url result) css)"
  let ?p1 = "if \<not> truthy ?p0 then fallback_price_extraction v else ?p0"
  from assms have t: "truthy ?p1" and pr: "price result' = ?p1"
    by (auto simp: browser_session_def Let_def split: option.splits if_splits)
  from t obtain p where p: "?p1 = Some p" by (auto simp: truthy_def split: option.splits)
  have "0 < p"
  proof (cases "truthy ?p0")
    case True
    with p show ?thesis by (auto dest: try_selectors_pos)
  next
    case False
    with p have "fallback_price_extraction v = Some p" by simp
    from fallback_bounds [OF this] show ?thesis by simp
  qed
  with p pr show ?thesis by simp
qed

lemma scrape_price_success_pos:
  assumes "success (fst (scrape_price bo v now u css))"
  shows "\<exists>p. price (fst (scrape_price bo v now u css)) = Some p \<and> 0 < p"
proof (cases "start_fails v")
  case (Some e)
  with assms show ?thesis by (simp add: scrape_price_def)
next
  case None
  let ?result = "\<lparr>url = u, price = None, success = False, error = None, timestamp = now\<rparr>"
  let ?r = "\<lparr>pw_running = True, browser_open = False, context_open = False, events = [Pw_start]\<rparr>"
  obtain exn result' r' where bs: "browser_session bo v css ?result ?r = (exn, result', r')"
    by (cases "browser_session bo v css ?result ?r") auto
  have f: "success (fst (scrape_price bo v now u css)) = success result'"
    "price (fst (scrape_price bo v now u css)) = price result'"
    using None bs by (auto simp: scrape_price_def split: option.splits)
  from assms f browser_session_success [OF bs] show ?thesis by simp
qed

lemma plain_page_scrape:
  assumes "clean_price_text t = Some c" "0 < c"
  shows "fst (scrape_price bo (plain_page t) now u (Some ''.price''))
           = \<lparr>url = u, price = Some c, success = True, error = None, timestamp = now\<rparr>"
  using assms
  by (simp add: scrape_price_def browser_session_def plain_page_def get_price_selectors_def
        truthy_def browser_close_def playwright_exit_def Let_def)

subsection \<open>The scheduled run: what it stores\<close>

lemma check_price_change_prices:
  "check_price_change cfg env p previous cur (b, s) = (exn, b', s') \<Longrightarrow> prices s' = prices s"
  by (auto simp: check_price_change_def Let_def split: option.splits if_splits)

lemma process_product_prices:
  "\<exists>new. prices (snd (process_product cfg bo now env p (b, s))) = prices s @ new \<and>
         (\<forall>e \<in> set new. 0 < entry_price e)"
proof -
  let ?res = "fst (scrape_price bo (item_visit env) now (purl p) (css_selector p))"
  let ?prev = "map_option entry_price (get_latest_price (prices s) (purl p))"
  show ?thesis
  proof (cases "run_fails env = None \<and> success ?res \<and> add_price_fails env = None")
    case False
    then have "prices (snd (process_product cfg bo now env p (b, s))) = prices s @ []"
      by (auto simp: process_product_def handle_exception_def add_price_def Let_def
            split: option.splits sum.splits prod.splits)
    then show ?thesis by (intro exI [of _ "[]"]) simp
  next
    case True
    then obtain c where c: "price ?res = Some c" "0 < c"
      using scrape_price_success_pos by blast
    let ?db = "prices s @ [\<lparr>entry_url = purl p, entry_price = c\<rparr>]"
    obtain exn b2 s2 where ch:
      "check_price_change cfg env p ?prev c (b\<lparr>successful := successful b + 1\<rparr>, s\<lparr>prices := ?db\<rparr>)
         = (exn, b2, s2)"
      by (metis prod_cases3)
    from check_price_change_prices [OF ch] have "prices s2 = ?db" by simp
    with True c ch
    have "prices (snd (process_product cfg bo now env p (b, s))) = ?db"
      by (auto simp: process_product_def handle_exception_def add_price_def Let_def
            split: option.splits)
    with c show ?thesis by (intro exI [of _ "[\<lparr>entry_url = purl p, entry_price = c\<rparr>]"]) simp
  qed
qed

lemma run_products_prices:
  "\<exists>new. prices (snd (run_products cfg bo now world i ps bs)) = prices (snd bs) @ new \<and>
         (\<forall>e \<in> set new. 0 < entry_price e)"
proof (induction ps arbitrary: i bs)
  case Nil
  show ?case by (intro exI [of _ "[]"]) simp
next
  case (Cons p ps)
  obtain b s where bs: "bs = (b, s)" by (cases bs) auto
  from process_product_prices [of cfg bo now "world i" p b s] obtain new1
    where 1: "prices (snd (process_product cfg bo now (world i) p bs)) = prices s @ new1"
      and p1: "\<forall>e \<in> set new1. 0 < entry_price e"
    by (auto simp: bs)
  from Cons.IH [of "Suc i" "process_product cfg bo now (world i) p bs"] obtain new2
    where 2: "prices (snd (run_products cfg bo now world (Suc i) ps
                 (process_product cfg bo now (world i) p bs)))
              = prices (snd (process_product cfg bo now (world i) p bs)) @ new2"
      and p2: "\<forall>e \<in> set new2. 0 < entry_price e"
    by blast
  from 1 2 p1 p2 show ?case
    by (intro exI [of _ "new1 @ new2"]) (auto simp: bs)
qed

lemma scrape_all_products_prices:
  "\<exists>new. prices (snd (scrape_all_products cfg bo now world ps s)) = prices s @ new \<and>
         (\<forall>e \<in> set new. 0 < entry_price e)"
proof (cases "ps = []")
  case True
  then show ?thesis by (intro exI [of _ "[]"]) (simp add: scrape_all_products_def)
next
  case False
  let ?b0 = "\<lparr>message = None, products_scraped = length ps, successful = 0, failed = 0,
             errors = [], price_changes = []\<rparr>"
  from run_products_prices [of cfg bo now world 0 ps "(?b0, s)"] obtain new
    where "prices (snd (run_products cfg bo now world 0 ps (?b0, s))) = prices s @ new"
      and "\<forall>e \<in> set new. 0 < entry_price e" by auto
  with False show ?thesis
    by (intro exI [of _ new]) (auto simp: scrape_all_products_def split: prod.splits)
qed



lemma sample_prices:
  "clean_price_text ''$105.00'' = Some 105"
  "clean_price_text ''$104.00'' = Some 104"
  "clean_price_text ''$120.00'' = Some 120"
  "clean_price_text ''$10.00'' = Some 10"
  by (simp_all add: parser_defs)

text \<open>
  Claim C9: an outcome with \<open>success\<close> carries a price, and that price is positive
  (a price found by a selector is positive, one found by the fallback scan lies in
  \<open>[0.01, 999999]\<close>); the run appends to the price table only such prices, so a
  table whose prices are all positive stays so.
\<close>

theorem persisted_prices_positive:
  "(success (fst (scrape_price bo v now u css)) \<longrightarrow>
      (\<exists>p. price (fst (scrape_price bo v now u css)) = Some p \<and> 0 < p)) \<and>
   (\<forall>p. try_selectors q sels = Some p \<longrightarrow> 0 < p) \<and>
   (\<forall>p. fallback_price_extraction v = Some p \<longrightarrow> 1 / 100 \<le> p \<and> p \<le> 999999) \<and>
   (\<exists>new. prices (snd (scrape_all_products cfg bo now world ps s)) = prices s @ new \<and>
          (\<forall>e \<in> set new. 0 < entry_price e)) \<and>
   ((\<forall>e \<in> set (prices s). 0 < entry_price e) \<longrightarrow>
    (\<forall>e \<in> set (prices (snd (scrape_all_products cfg bo now world ps s))). 0 < entry_price e))"
proof -
  from scrape_all_products_prices [of cfg bo now world ps s] obtain new
    where n: "prices (snd (scrape_all_products cfg bo now world ps s)) = prices s @ new"
      "\<forall>e \<in> set new. 0 < entry_price e" by blast
  then have "(\<forall>e \<in> set (prices s). 0 < entry_price e) \<longrightarrow>
    (\<forall>e \<in> set (prices (snd (scrape_all_products cfg bo now world ps s))). 0 < entry_price e)"
    by auto
  with n show ?thesis
    using scrape_price_success_pos [of bo v now u css] try_selectors_pos [of q sels]
      fallback_bounds [of v]
    by blast
qed

theorem persisted_prices_positive_witness:
  "success (fst (scrape_price (\<lambda>_. True) (plain_page ''$10.00'') 0 ''https://shop.example/b''
                   (Some ''.price''))) \<and>
   price (fst (scrape_price (\<lambda>_. True) (plain_page ''$10.00'') 0 ''https://shop.example/b''
                   (Some ''.price''))) = Some 10 \<and>
   (0::rat) < 10 \<and>
   0 < entry_price (last (prices (snd (scrape_all_products
         \<lparr>notification_threshold = 5, notifications_enabled = True\<rparr> (\<lambda>_. True) 0
         (\<lambda>i. quiet_world ''$10.00'' False) [shop_item] (store_with 100)))))"
proof -
  let ?cfg = "\<lparr>notification_threshold = 5, notifications_enabled = True\<rparr>"
  let ?run = "scrape_all_products ?cfg (\<lambda>_. True) 0 (\<lambda>i. quiet_world ''$10.00'' False)
                [shop_item] (store_with 100)"
  let ?res = "fst (scrape_price (\<lambda>_. True) (plain_page ''$10.00'') 0 ''https://shop.example/b''
                   (Some ''.price''))"
  note t = persisted_prices_positive [of "\<lambda>_. True" "plain_page ''$10.00''" 0
      "''https://shop.example/b''" "Some ''.price''" "\<lambda>_. None" "[]" ?cfg
      "\<lambda>i. quiet_world ''$10.00'' False" "[shop_item]" "store_with 100"]
  have s: "success ?res"
    by (simp add: plain_page_scrape [OF sample_prices(4)])
  with t obtain p where p: "price ?res = Some p" "0 < p" by blast
  have p10: "price ?res = Some 10"
    by (simp add: plain_page_scrape [OF sample_prices(4)])
  have h: "\<forall>e \<in> set (prices (store_with 100)). 0 < entry_price e"
    by (simp add: store_with_def)
  with t have all: "\<forall>e \<in> set (prices (snd ?run)). 0 < entry_price e" by blast
  from t obtain new where "prices (snd ?run) = prices (store_with 100) @ new" by blast
  then have "prices (snd ?run) \<noteq> []" by (simp add: store_with_def)
  then have "last (prices (snd ?run)) \<in> set (prices (snd ?run))" by simp
  with all have "0 < entry_price (last (prices (snd ?run)))" by blast
  with s p10 show ?thesis by simp
qed

subsection \<open>The scheduled run: the notification threshold\<close>





subsection \<open>The scheduled run: the counters\<close>

text \<open>As long as no stored price is zero, every product is counted once: the two
  counters add up to the number of products.\<close>

lemma get_latest_price_mem: "get_latest_price db u = Some e \<Longrightarrow> e \<in> set db"
proof -
  assume a: "get_latest_price db u = Some e"
  then have ne: "filter (\<lambda>x. entry_url x = u) db \<noteq> []"
    and e: "e = last (filter (\<lambda>x. entry_url x = u) db)"
    by (auto simp: get_latest_price_def split: list.splits)
  from ne have "last (filter (\<lambda>x. entry_url x = u) db) \<in> set (filter (\<lambda>x. entry_url x = u) db)"
    by (rule last_in_set)
  with e show ?thesis by simp
qed

lemma check_price_change_counts:
  assumes "check_price_change cfg env p previous cur (b, s) = (exn, b', s')"
  shows "successful b' = successful b \<and> failed b' = failed b \<and>
         products_scraped b' = products_scraped b \<and> (exn \<noteq> None \<longrightarrow> previous = Some 0)"
  using assms
  by (auto simp: check_price_change_def Let_def split: option.splits if_splits)

lemma process_product_counts:
  assumes "\<forall>e \<in> set (prices s). entry_price e \<noteq> 0"
  shows "successful (fst (process_product cfg bo now env p (b, s)))
           + failed (fst (process_product cfg bo now env p (b, s)))
         = Suc (successful b + failed b) \<and>
         products_scraped (fst (process_product cfg bo now env p (b, s))) = products_scraped b"
proof -
  let ?res = "fst (scrape_price bo (item_visit env) now (purl p) (css_selector p))"
  let ?prev = "map_option entry_price (get_latest_price (prices s) (purl p))"
  have nz: "?prev \<noteq> Some 0"
    using assms by (auto dest: get_latest_price_mem)
  show ?thesis
  proof (cases "run_fails env = None \<and> success ?res \<and> add_price_fails env = None")
    case False
    then show ?thesis
      by (auto simp: process_product_def handle_exception_def add_price_def Let_def
            split: option.splits sum.splits prod.splits)
  next
    case True
    then obtain c where c: "price ?res = Some c" "0 < c"
      using scrape_price_success_pos by blast
    let ?db = "prices s @ [\<lparr>entry_url = purl p, entry_price = c\<rparr>]"
    obtain exn b2 s2 where ch:
      "check_price_change cfg env p ?prev c (b\<lparr>successful := successful b + 1\<rparr>, s\<lparr>prices := ?db\<rparr>)
         = (exn, b2, s2)"
      by (metis prod_cases3)
    from check_price_change_counts [OF ch] nz
    have k: "successful b2 = successful b + 1" "failed b2 = failed b"
      "products_scraped b2 = products_scraped b" "exn = None"
      by auto
    with True c ch show ?thesis
      by (simp add: process_product_def add_price_def Let_def)
  qed
qed

lemma run_products_counts:
  assumes "\<forall>e \<in> set (prices (snd bs)). entry_price e \<noteq> 0"
  shows "successful (fst (run_products cfg bo now world i ps bs))
           + failed (fst (run_products cfg bo now world i ps bs))
         = successful (fst bs) + failed (fst bs) + length ps \<and>
         products_scraped (fst (run_products cfg bo now world i ps bs)) = products_scraped (fst bs)"
  using assms
proof (induction ps arbitrary: i bs)
  case Nil
  show ?case by simp
next
  case (Cons p ps)
  obtain b s where bs: "bs = (b, s)" by (cases bs) auto
  let ?bs1 = "process_product cfg bo now (world i) p bs"
  from Cons.prems have nz: "\<forall>e \<in> set (prices s). entry_price e \<noteq> 0" by (simp add: bs)
  from process_product_prices [of cfg bo now "world i" p b s] obtain new
    where "prices (snd ?bs1) = prices s @ new" "\<forall>e \<in> set new. 0 < entry_price e"
    by (auto simp: bs)
  with nz have nz1: "\<forall>e \<in> set (prices (snd ?bs1)). entry_price e \<noteq> 0" by auto
  from process_product_counts [OF nz, of cfg bo now "world i" p b]
  have c1: "successful (fst ?bs1) + failed (fst ?bs1) = Suc (successful b + failed b)"
    "products_scraped (fst ?bs1) = products_scraped b"
    by (simp_all add: bs)
  from Cons.IH [OF nz1, of "Suc i"] c1 show ?case by (simp add: bs)
qed

lemma scrape_all_products_counts:
  assumes "\<forall>e \<in> set (prices s). entry_price e \<noteq> 0"
  shows "successful (fst (scrape_all_products cfg bo now world ps s))
           + failed (fst (scrape_all_products cfg bo now world ps s)) = length ps \<and>
         products_scraped (fst (scrape_all_products cfg bo now world ps s)) = length ps"
proof (cases "ps = []")
  case True
  then show ?thesis by (simp add: scrape_all_products_def)
next
  case False
  let ?b0 = "\<lparr>message = None, products_scraped = length ps, successful = 0, failed = 0,
             errors = [], price_changes = []\<rparr>"
  from run_products_counts [of "(?b0, s)" cfg bo now world 0 ps] assms False show ?thesis
    by (auto simp: scrape_all_products_def split: prod.splits)
qed




end
